theory Spec2Isabelle
  imports Main "HOL-Library.Sublist"
begin

section \<open>The chat component of \<^verbatim>\<open>client/src/components/chat/Chat.tsx\<close>\<close>

text \<open>
  The component keeps six pieces of React state and changes them in three handlers:
  \<^verbatim>\<open>handleSendMessage\<close> (the spec's \<^verbatim>\<open>submit\<close>), \<^verbatim>\<open>handleConfirmationResponse\<close>
  (\<^verbatim>\<open>respondToConfirmation\<close>) and \<^verbatim>\<open>handleStartNewConversation\<close> (\<^verbatim>\<open>reset\<close>).
  The two asynchronous handlers are split at their single \<^verbatim>\<open>await fetch\<close>: the part that
  runs at once, and the part that runs when the fetch settles. What the source draws from
  its environment is an argument of the model: every call of \<^verbatim>\<open>generateId()\<close>, every
  \<^verbatim>\<open>new Date()\<close>, and the outcome of the fetch.

  Strings are \<^typ>\<open>string\<close>, one \<^typ>\<open>char\<close> per code unit below 256; a \<^verbatim>\<open>Date\<close> is the
  number of milliseconds it holds.
\<close>

subsection \<open>Messages (\<^verbatim>\<open>types.ts\<close>)\<close>

datatype MessageRole = User | Assistant

record Message =
  id_msg :: string
  role :: MessageRole
  content :: string
  timestamp :: nat
  suggestedQueries :: "string list option"

definition greeting :: string where
  "greeting = ''Hello! I'm your ASU enrollment data assistant. I can help you query student enrollment information. Just tell me what you'd like to know - for example, 'How many students were enrolled in Fall 2024?' or 'Show me graduate enrollment trends.'' @ [CHR 0x27]"

text \<open>\<^verbatim>\<open>INITIAL_MESSAGE\<close> is built once, when the module is loaded, from one \<^verbatim>\<open>generateId()\<close>
  and one \<^verbatim>\<open>new Date()\<close>; the optional \<^verbatim>\<open>suggestedQueries\<close> is absent.\<close>

definition INITIAL_MESSAGE :: "string \<Rightarrow> nat \<Rightarrow> Message" where
  "INITIAL_MESSAGE gid now =
     \<lparr>id_msg = gid, role = Assistant, content = greeting, timestamp = now,
      suggestedQueries = None\<rparr>"

definition errorText :: string where
  "errorText = ''Sorry, I encountered an error connecting to the server. Please make sure the backend is running on http://localhost:8000''"

subsection \<open>The state of the component\<close>

record Chat =
  messages :: "Message list"
  input :: string
  isLoading :: bool
  conversationId :: "string option"
  isConfirmed :: bool
  isAwaitingConfirmation :: bool

text \<open>The initial values of the six \<^verbatim>\<open>useState\<close> hooks; \<open>im\<close> is \<^verbatim>\<open>INITIAL_MESSAGE\<close>.\<close>

definition Chat_initial :: "Message \<Rightarrow> Chat" where
  "Chat_initial im =
     \<lparr>messages = [im], input = [], isLoading = False, conversationId = None,
      isConfirmed = False, isAwaitingConfirmation = False\<rparr>"

subsection \<open>\<^verbatim>\<open>String.prototype.trim\<close>\<close>

text \<open>The white space and line terminators of ECMAScript that are code units below 256:
  TAB, LF, VT, FF, CR, SP and NBSP.\<close>

definition isWhiteSpace :: "char \<Rightarrow> bool" where
  "isWhiteSpace c =
     (c = CHR 0x09 \<or> c = CHR 0x0A \<or> c = CHR 0x0B \<or> c = CHR 0x0C \<or> c = CHR 0x0D
      \<or> c = CHR 0x20 \<or> c = CHR 0xA0)"

definition trim :: "string \<Rightarrow> string" where
  "trim str = rev (dropWhile isWhiteSpace (rev (dropWhile isWhiteSpace str)))"

subsection \<open>The gateway: \<^verbatim>\<open>POST {API_URL}/chat\<close>\<close>

record ChatRequest =
  message :: string
  conversation_id :: "string option"

text \<open>The body of a reply, with the fields the handlers read. The body is taken to be a JSON
  object of the shape the interface gives: \<^verbatim>\<open>response\<close> a string, \<^verbatim>\<open>conversation_id\<close> an
  optional string, the two flags optional booleans. A field that is absent is \<open>None\<close>.\<close>

record ChatData =
  response :: string
  conversation_id :: "string option"
  confirmed :: "bool option"
  awaiting_confirmation :: "bool option"

text \<open>The fetch either rejects (network error) or resolves with a status and a body.\<close>

datatype FetchResult = Rejected | Response nat ChatData

definition ok :: "nat \<Rightarrow> bool" where
  "ok status = (200 \<le> status \<and> status \<le> 299)"

text \<open>The head of both \<^verbatim>\<open>try\<close> blocks: the awaited fetch throws when it rejects, the
  handler throws when \<^verbatim>\<open>!response.ok\<close>, and otherwise \<^verbatim>\<open>data\<close> is the body. \<open>None\<close> is
  control passing to \<^verbatim>\<open>catch\<close>.\<close>

fun fetch_data :: "FetchResult \<Rightarrow> ChatData option" where
  "fetch_data Rejected = None"
| "fetch_data (Response status body) = (if ok status then Some body else None)"

text \<open>JavaScript truthiness of an optional boolean and of an optional string (the empty
  string is falsy).\<close>

fun truthy :: "bool option \<Rightarrow> bool" where
  "truthy None = False"
| "truthy (Some b) = b"

fun truthy_string :: "string option \<Rightarrow> bool" where
  "truthy_string None = False"
| "truthy_string (Some str) = (str \<noteq> [])"

subsection \<open>\<^verbatim>\<open>handleStartNewConversation\<close>\<close>

definition handleStartNewConversation :: "Message \<Rightarrow> Chat \<Rightarrow> string \<Rightarrow> nat \<Rightarrow> Chat" where
  "handleStartNewConversation im s gid now =
     s\<lparr>messages := [im\<lparr>id_msg := gid, timestamp := now\<rparr>],
       conversationId := None,
       isConfirmed := False,
       isAwaitingConfirmation := False,
       input := []\<rparr>"

subsection \<open>\<^verbatim>\<open>handleSendMessage\<close>\<close>

text \<open>Up to the \<^verbatim>\<open>await\<close>: the guard, the user message, and the request handed to
  \<^verbatim>\<open>fetch\<close> (\<open>None\<close> when the handler returned before calling it).\<close>

definition handleSendMessage_start :: "Chat \<Rightarrow> string \<Rightarrow> nat \<Rightarrow> Chat \<times> ChatRequest option" where
  "handleSendMessage_start s gid now =
     (let trimmedInput = trim (input s) in
      if trimmedInput = [] \<or> isLoading s then (s, None)
      else
        let userMessage = \<lparr>id_msg = gid, role = User, content = trimmedInput,
                            timestamp = now, suggestedQueries = None\<rparr>
        in (s\<lparr>messages := messages s @ [userMessage], input := [], isLoading := True\<rparr>,
            Some \<lparr>message = trimmedInput, conversation_id = conversationId s\<rparr>))"

text \<open>After the \<^verbatim>\<open>await\<close>, on the state the component has by then: the rest of \<^verbatim>\<open>try\<close>,
  or \<^verbatim>\<open>catch\<close>, and then \<^verbatim>\<open>finally\<close>.\<close>

definition handleSendMessage_resume :: "Chat \<Rightarrow> FetchResult \<Rightarrow> string \<Rightarrow> nat \<Rightarrow> Chat" where
  "handleSendMessage_resume s r gid now =
     (case fetch_data r of
        Some data \<Rightarrow>
          let s1 = (if truthy_string (ChatData.conversation_id data)
                    then s\<lparr>conversationId := ChatData.conversation_id data\<rparr> else s);
              s2 = (if truthy (confirmed data)
                    then s1\<lparr>isConfirmed := True, isAwaitingConfirmation := False\<rparr>
                    else if truthy (awaiting_confirmation data)
                    then s1\<lparr>isAwaitingConfirmation := True\<rparr>
                    else s1\<lparr>isAwaitingConfirmation := False\<rparr>);
              assistantMessage = \<lparr>id_msg = gid, role = Assistant, content = response data,
                                   timestamp = now, suggestedQueries = None\<rparr>;
              s3 = s2\<lparr>messages := messages s2 @ [assistantMessage]\<rparr>
          in s3\<lparr>isLoading := False\<rparr>
      | None \<Rightarrow>
          let errorMessage = \<lparr>id_msg = gid, role = Assistant, content = errorText,
                               timestamp = now, suggestedQueries = None\<rparr>;
              s1 = s\<lparr>messages := messages s @ [errorMessage]\<rparr>
          in s1\<lparr>isLoading := False\<rparr>)"

text \<open>The handler run from the call to the end of \<^verbatim>\<open>finally\<close>, with nothing in between:
  \<open>gid1\<close>, \<open>now1\<close> are drawn for the user message, \<open>r\<close> is how the fetch settles, and
  \<open>gid2\<close>, \<open>now2\<close> are drawn for the assistant or error message.\<close>

definition handleSendMessage ::
  "Chat \<Rightarrow> string \<Rightarrow> nat \<Rightarrow> FetchResult \<Rightarrow> string \<Rightarrow> nat \<Rightarrow> Chat" where
  "handleSendMessage s gid1 now1 r gid2 now2 =
     (case handleSendMessage_start s gid1 now1 of
        (s', None) \<Rightarrow> s'
      | (s', Some req) \<Rightarrow> handleSendMessage_resume s' r gid2 now2)"

subsection \<open>\<^verbatim>\<open>handleConfirmationResponse\<close>\<close>

datatype Choice = Yes | No

definition handleConfirmationResponse_start ::
  "Chat \<Rightarrow> Choice \<Rightarrow> string \<Rightarrow> nat \<Rightarrow> Chat \<times> ChatRequest option" where
  "handleConfirmationResponse_start s choice gid now =
     (if isLoading s then (s, None)
      else
        let userMessage = \<lparr>id_msg = gid, role = User,
                            content = (if choice = Yes then ''Yes''
                                       else ''No, let me change something''),
                            timestamp = now, suggestedQueries = None\<rparr>
        in (s\<lparr>messages := messages s @ [userMessage], isLoading := True\<rparr>,
            Some \<lparr>message = (if choice = Yes then ''yes'' else ''I want to change something''),
                  conversation_id = conversationId s\<rparr>))"

definition handleConfirmationResponse_resume ::
  "Chat \<Rightarrow> FetchResult \<Rightarrow> string \<Rightarrow> nat \<Rightarrow> Chat" where
  "handleConfirmationResponse_resume s r gid now =
     (case fetch_data r of
        Some data \<Rightarrow>
          let s1 = (if truthy (confirmed data)
                    then s\<lparr>isConfirmed := True, isAwaitingConfirmation := False\<rparr>
                    else s\<lparr>isAwaitingConfirmation := truthy (awaiting_confirmation data)\<rparr>);
              assistantMessage = \<lparr>id_msg = gid, role = Assistant, content = response data,
                                   timestamp = now, suggestedQueries = None\<rparr>;
              s2 = s1\<lparr>messages := messages s1 @ [assistantMessage]\<rparr>
          in s2\<lparr>isLoading := False\<rparr>
      | None \<Rightarrow> s\<lparr>isLoading := False\<rparr>)"

definition handleConfirmationResponse ::
  "Chat \<Rightarrow> Choice \<Rightarrow> string \<Rightarrow> nat \<Rightarrow> FetchResult \<Rightarrow> string \<Rightarrow> nat \<Rightarrow> Chat" where
  "handleConfirmationResponse s choice gid1 now1 r gid2 now2 =
     (case handleConfirmationResponse_start s choice gid1 now1 of
        (s', None) \<Rightarrow> s'
      | (s', Some req) \<Rightarrow> handleConfirmationResponse_resume s' r gid2 now2)"

subsection \<open>What is rendered\<close>

text \<open>The footer is \<^verbatim>\<open>isConfirmed ? ... : isAwaitingConfirmation ? ... : ...\<close>: the three
  modes of the spec, read off the two flags in this order.\<close>

datatype Mode = Composing | AwaitingConfirmation | Confirmed

definition mode :: "Chat \<Rightarrow> Mode" where
  "mode s =
     (if isConfirmed s then Confirmed
      else if isAwaitingConfirmation s then AwaitingConfirmation
      else Composing)"

datatype Control =
  MessageInput | SendButton | YesButton | ChangeButton | StartOverButton | StartNewButton

fun rendered :: "Chat \<Rightarrow> Control \<Rightarrow> bool" where
  "rendered s StartNewButton = isConfirmed s"
| "rendered s YesButton = (\<not> isConfirmed s \<and> isAwaitingConfirmation s)"
| "rendered s ChangeButton = (\<not> isConfirmed s \<and> isAwaitingConfirmation s)"
| "rendered s StartOverButton = (\<not> isConfirmed s \<and> isAwaitingConfirmation s)"
| "rendered s MessageInput = (\<not> isConfirmed s \<and> \<not> isAwaitingConfirmation s)"
| "rendered s SendButton = (\<not> isConfirmed s \<and> \<not> isAwaitingConfirmation s)"

text \<open>The \<^verbatim>\<open>disabled\<close> attribute of each control.\<close>

fun disabled :: "Chat \<Rightarrow> Control \<Rightarrow> bool" where
  "disabled s StartNewButton = False"
| "disabled s YesButton = isLoading s"
| "disabled s ChangeButton = isLoading s"
| "disabled s StartOverButton = isLoading s"
| "disabled s MessageInput = isLoading s"
| "disabled s SendButton = (trim (input s) = [] \<or> isLoading s)"

definition available :: "Chat \<Rightarrow> Control \<Rightarrow> bool" where
  "available s c = (rendered s c \<and> \<not> disabled s c)"

subsection \<open>The component as an event system\<close>

text \<open>
  Between the two halves of an asynchronous handler the component goes on receiving
  events. The system state is the React state together with the handler, if any, whose
  fetch has not settled. An event comes from a control that is rendered and not disabled
  (typing in the input, Enter in the input, a click), or is the settling of the pending
  fetch; an event on a control that is not available changes nothing.
\<close>

datatype Pending = SendPending | ConfirmationPending

datatype Event =
  Change string
| KeyEnter string nat
| Click Control string nat
| Settle FetchResult string nat

definition launch ::
  "Pending \<Rightarrow> Pending option \<Rightarrow> Chat \<times> ChatRequest option \<Rightarrow> Chat \<times> Pending option" where
  "launch k p out = (case out of (s', None) \<Rightarrow> (s', p) | (s', Some req) \<Rightarrow> (s', Some k))"

fun onClick :: "Message \<Rightarrow> Chat \<times> Pending option \<Rightarrow> Control \<Rightarrow> string \<Rightarrow> nat \<Rightarrow> Chat \<times> Pending option" where
  "onClick im (s, p) MessageInput gid now = (s, p)"
| "onClick im (s, p) SendButton gid now = launch SendPending p (handleSendMessage_start s gid now)"
| "onClick im (s, p) YesButton gid now =
     launch ConfirmationPending p (handleConfirmationResponse_start s Yes gid now)"
| "onClick im (s, p) ChangeButton gid now =
     launch ConfirmationPending p (handleConfirmationResponse_start s No gid now)"
| "onClick im (s, p) StartOverButton gid now = (handleStartNewConversation im s gid now, p)"
| "onClick im (s, p) StartNewButton gid now = (handleStartNewConversation im s gid now, p)"

fun fire :: "Message \<Rightarrow> Chat \<times> Pending option \<Rightarrow> Event \<Rightarrow> Chat \<times> Pending option" where
  "fire im (s, p) (Change text) =
     (if available s MessageInput then (s\<lparr>input := text\<rparr>, p) else (s, p))"
| "fire im (s, p) (KeyEnter gid now) =
     (if available s MessageInput
      then launch SendPending p (handleSendMessage_start s gid now) else (s, p))"
| "fire im (s, p) (Click c gid now) =
     (if available s c then onClick im (s, p) c gid now else (s, p))"
| "fire im (s, p) (Settle r gid now) =
     (case p of
        None \<Rightarrow> (s, p)
      | Some SendPending \<Rightarrow> (handleSendMessage_resume s r gid now, None)
      | Some ConfirmationPending \<Rightarrow> (handleConfirmationResponse_resume s r gid now, None))"

text \<open>The state after a sequence of events, from a freshly mounted component.\<close>

definition run :: "Message \<Rightarrow> Event list \<Rightarrow> Chat \<times> Pending option" where
  "run im evs = foldl (fire im) (Chat_initial im, None) evs"

text \<open>What the proofs below carry along every run: the two flags are never both set, and a
  handler is pending only while \<open>isLoading\<close> is set and \<open>isConfirmed\<close> is not.\<close>

definition consistent :: "Chat \<times> Pending option \<Rightarrow> bool" where
  "consistent sp =
     (\<not> (isConfirmed (fst sp) \<and> isAwaitingConfirmation (fst sp))
      \<and> (snd sp \<noteq> None \<longrightarrow> isLoading (fst sp) \<and> \<not> isConfirmed (fst sp)))"

subsection \<open>A conversation used in the examples\<close>

text \<open>The user asks a question, the backend answers with a conversation identifier and
  asks for confirmation; then the user confirms and the backend reports the query as
  confirmed.\<close>

definition example_im :: Message where
  "example_im = INITIAL_MESSAGE ''h7k2m9q'' 1000"

definition example_ask :: "Event list" where
  "example_ask =
     [Change ''How many students enrolled in Fall 2024?'',
      Click SendButton ''u4b8c1d'' 2000,
      Settle (Response 200
                \<lparr>response = ''Search enrollment for Fall 2024?'', conversation_id = Some ''abc'',
                 confirmed = None, awaiting_confirmation = Some True\<rparr>) ''a9f3e7g'' 3000]"

definition example_awaiting :: Chat where
  "example_awaiting = fst (run example_im example_ask)"

definition example_confirmed :: Chat where
  "example_confirmed =
     fst (run example_im (example_ask @
       [Click YesButton ''u5d1e8f'' 4000,
        Settle (Response 200
                  \<lparr>response = ''1234 students were enrolled.'', conversation_id = Some ''abc'',
                   confirmed = Some True, awaiting_confirmation = Some False\<rparr>) ''a2c6g0h'' 5000]))"

text \<open>The same conversation while its first request is in flight, and just before it is
  sent.\<close>

definition example_sending :: "Event list" where
  "example_sending =
     [Change ''How many students enrolled in Fall 2024?'',
      Click SendButton ''u4b8c1d'' 2000]"

definition example_typed :: Chat where
  "example_typed = fst (run example_im [Change ''How many students enrolled in Fall 2024?''])"

section \<open>Properties\<close>

subsection \<open>Auxiliary facts\<close>

lemmas handler_defs =
  handleSendMessage_def handleSendMessage_start_def handleSendMessage_resume_def
  handleConfirmationResponse_def handleConfirmationResponse_start_def
  handleConfirmationResponse_resume_def

lemmas eval_defs =
  run_def available_def launch_def trim_def isWhiteSpace_def ok_def Let_def
  Chat_initial_def INITIAL_MESSAGE_def example_im_def
  handleSendMessage_start_def handleSendMessage_resume_def
  handleConfirmationResponse_start_def handleConfirmationResponse_resume_def
  handleStartNewConversation_def

lemma dropWhile_all: "(\<forall>c\<in>set (dropWhile P xs). P c) = (\<forall>c\<in>set xs. P c)"
  by (induction xs) auto

text \<open>The trimmed text is empty exactly when the text holds nothing but white space.\<close>

lemma trim_Nil_iff: "(trim str = []) = list_all isWhiteSpace str"
  by (simp add: trim_def dropWhile_eq_Nil_conv dropWhile_all list_all_iff)

lemma example_awaiting_value:
  "example_awaiting =
     \<lparr>messages =
        [example_im,
         \<lparr>id_msg = ''u4b8c1d'', role = User,
          content = ''How many students enrolled in Fall 2024?'', timestamp = 2000,
          suggestedQueries = None\<rparr>,
         \<lparr>id_msg = ''a9f3e7g'', role = Assistant,
          content = ''Search enrollment for Fall 2024?'', timestamp = 3000,
          suggestedQueries = None\<rparr>],
      input = [], isLoading = False, conversationId = Some ''abc'',
      isConfirmed = False, isAwaitingConfirmation = True\<rparr>"
  by (simp add: example_awaiting_def example_ask_def eval_defs)

lemma example_confirmed_value:
  "example_confirmed =
     \<lparr>messages = messages example_awaiting @
        [\<lparr>id_msg = ''u5d1e8f'', role = User, content = ''Yes'', timestamp = 4000,
          suggestedQueries = None\<rparr>,
         \<lparr>id_msg = ''a2c6g0h'', role = Assistant,
          content = ''1234 students were enrolled.'', timestamp = 5000,
          suggestedQueries = None\<rparr>],
      input = [], isLoading = False, conversationId = Some ''abc'',
      isConfirmed = True, isAwaitingConfirmation = False\<rparr>"
proof -
  have "run example_im example_ask = (example_awaiting, None)"
    by (simp add: example_awaiting_def example_ask_def eval_defs)
  then have "example_confirmed =
      fst (foldl (fire example_im) (example_awaiting, None)
        [Click YesButton ''u5d1e8f'' 4000,
         Settle (Response 200
                  \<lparr>response = ''1234 students were enrolled.'', conversation_id = Some ''abc'',
                   confirmed = Some True, awaiting_confirmation = Some False\<rparr>) ''a2c6g0h'' 5000])"
    by (simp add: example_confirmed_def run_def)
  then show ?thesis
    by (simp add: example_awaiting_value eval_defs)
qed

lemma example_typed_value:
  "example_typed = (Chat_initial example_im)\<lparr>input := ''How many students enrolled in Fall 2024?''\<rparr>"
  by (simp add: example_typed_def eval_defs)

lemma example_sending_value:
  "run example_im example_sending =
     ((Chat_initial example_im)\<lparr>messages := [example_im,
         \<lparr>id_msg = ''u4b8c1d'', role = User,
          content = ''How many students enrolled in Fall 2024?'', timestamp = 2000,
          suggestedQueries = None\<rparr>],
        isLoading := True\<rparr>,
      Some SendPending)"
  by (simp add: example_sending_def eval_defs)

subsection \<open>The atomic handlers are runs of the event system\<close>

text \<open>With no other fetch pending, a click on an available button followed by the settling
  of its fetch is the handler run from start to end.\<close>

lemma submit_by_events:
  assumes "available s SendButton"
  shows "fire im (fire im (s, None) (Click SendButton gid now)) (Settle r gid' now') =
           (handleSendMessage s gid now r gid' now', None)"
  using assms
  by (simp add: available_def launch_def handleSendMessage_def handleSendMessage_start_def Let_def)

lemma respond_by_events:
  assumes "available s YesButton"
  shows "fire im (fire im (s, None) (Click YesButton gid now)) (Settle r gid' now') =
           (handleConfirmationResponse s Yes gid now r gid' now', None)
       \<and> fire im (fire im (s, None) (Click ChangeButton gid now)) (Settle r gid' now') =
           (handleConfirmationResponse s No gid now r gid' now', None)"
  using assms
  by (simp add: available_def launch_def handleConfirmationResponse_def
      handleConfirmationResponse_start_def Let_def)

text \<open>On a successful reply the second half of \<^verbatim>\<open>handleConfirmationResponse\<close> does what the
  second half of \<^verbatim>\<open>handleSendMessage\<close> does, except that it never stores a conversation
  identifier.\<close>

lemma confirmation_resume_as_send:
  assumes "fetch_data r = Some d"
  shows "handleConfirmationResponse_resume s r gid now =
           (handleSendMessage_resume s r gid now)\<lparr>conversationId := conversationId s\<rparr>"
  using assms
  by (simp add: handleConfirmationResponse_resume_def handleSendMessage_resume_def Let_def)

text \<open>The mode after a successful reply to \<^verbatim>\<open>handleSendMessage\<close>, in any state: the handler
  never clears \<open>isConfirmed\<close>.\<close>

lemma send_resume_mode:
  assumes "fetch_data r = Some d"
  shows "mode (handleSendMessage_resume s r gid now) =
           (if truthy (confirmed d) \<or> isConfirmed s then Confirmed
            else if truthy (awaiting_confirmation d) then AwaitingConfirmation
            else Composing)"
  using assms by (simp add: handleSendMessage_resume_def Let_def mode_def)

lemma send_mode:
  assumes "trim (input s) \<noteq> []" and "\<not> isLoading s" and "fetch_data r = Some d"
  shows "mode (handleSendMessage s gid now r gid' now') =
           (if truthy (confirmed d) \<or> isConfirmed s then Confirmed
            else if truthy (awaiting_confirmation d) then AwaitingConfirmation
            else Composing)"
  using assms by (simp add: handler_defs Let_def mode_def)

subsection \<open>The invariant of the event system\<close>

lemma consistent_initial: "consistent (Chat_initial im, None)"
  by (simp add: consistent_def Chat_initial_def)

lemma consistent_send_start:
  assumes "consistent (s, p)" and "\<not> isConfirmed s" and "\<not> isAwaitingConfirmation s"
  shows "consistent (launch SendPending p (handleSendMessage_start s gid now))"
  using assms by (simp add: consistent_def launch_def handleSendMessage_start_def Let_def)

lemma consistent_confirmation_start:
  assumes "consistent (s, p)" and "\<not> isConfirmed s"
  shows "consistent (launch ConfirmationPending p (handleConfirmationResponse_start s c gid now))"
  using assms by (simp add: consistent_def launch_def handleConfirmationResponse_start_def Let_def)

lemma consistent_reset:
  assumes "consistent (s, p)"
  shows "consistent (handleStartNewConversation im s gid now, p)"
  using assms by (simp add: consistent_def handleStartNewConversation_def)

lemma consistent_send_resume:
  assumes "\<not> isConfirmed s"
  shows "consistent (handleSendMessage_resume s r gid now, None)"
  using assms by (simp add: consistent_def handleSendMessage_resume_def Let_def split: option.splits)

lemma consistent_confirmation_resume:
  assumes "\<not> isConfirmed s"
  shows "consistent (handleConfirmationResponse_resume s r gid now, None)"
  using assms
  by (simp add: consistent_def handleConfirmationResponse_resume_def Let_def split: option.splits)

lemma consistent_click:
  assumes "consistent (s, p)" and "available s c"
  shows "consistent (onClick im (s, p) c gid now)"
proof (cases c)
  case SendButton
  with assms show ?thesis by (simp add: available_def consistent_send_start)
next
  case YesButton
  with assms show ?thesis by (simp add: available_def consistent_confirmation_start)
next
  case ChangeButton
  with assms show ?thesis by (simp add: available_def consistent_confirmation_start)
qed (insert assms, simp_all add: consistent_reset)

lemma consistent_fire:
  assumes "consistent sp"
  shows "consistent (fire im sp e)"
proof -
  obtain s p where sp: "sp = (s, p)" by (cases sp)
  show ?thesis
  proof (cases e)
    case (Change str)
    with assms sp show ?thesis by (simp add: consistent_def)
  next
    case (KeyEnter gid now)
    with assms sp show ?thesis by (simp add: available_def consistent_send_start)
  next
    case (Click c gid now)
    with assms sp show ?thesis by (simp add: consistent_click)
  next
    case (Settle r gid now)
    show ?thesis
    proof (cases p)
      case None
      with assms sp Settle show ?thesis by simp
    next
      case (Some k)
      with assms sp have "\<not> isConfirmed s" by (simp add: consistent_def)
      with sp Settle Some show ?thesis
        by (cases k) (simp_all add: consistent_send_resume consistent_confirmation_resume)
    qed
  qed
qed

lemma consistent_run: "consistent (run im evs)"
proof (induction evs rule: rev_induct)
  case Nil
  show ?case by (simp add: run_def consistent_initial)
next
  case (snoc e evs)
  then show ?case by (simp add: run_def consistent_fire)
qed

text \<open>A handler is pending exactly while \<open>isLoading\<close> is set, so one pending slot is
  enough: both handlers return at once while it is set.\<close>

lemma pending_iff_loading_fire:
  assumes "(snd sp \<noteq> None) = isLoading (fst sp)"
  shows "(snd (fire im sp e) \<noteq> None) = isLoading (fst (fire im sp e))"
proof -
  obtain s p where sp: "sp = (s, p)" by (cases sp)
  show ?thesis
  proof (cases e)
    case (Click c gid now)
    with assms sp show ?thesis
      by (cases c)
        (auto simp add: available_def launch_def handleSendMessage_start_def
          handleConfirmationResponse_start_def handleStartNewConversation_def Let_def)
  next
    case (Settle r gid now)
    with assms sp show ?thesis
      by (auto simp add: handleSendMessage_resume_def handleConfirmationResponse_resume_def Let_def
          split: option.splits Pending.splits)
  qed (insert assms sp, auto simp add: available_def launch_def handleSendMessage_start_def Let_def)
qed

lemma pending_iff_loading: "(snd (run im evs) \<noteq> None) = isLoading (fst (run im evs))"
proof (induction evs rule: rev_induct)
  case Nil
  show ?case by (simp add: run_def Chat_initial_def)
next
  case (snoc e evs)
  have "run im (evs @ [e]) = fire im (run im evs) e" by (simp add: run_def)
  with pending_iff_loading_fire [OF snoc.IH, of im e] show ?case by simp
qed

subsection \<open>The message list under each half of a handler\<close>

lemma send_start_prefix:
  "prefix (messages s) (messages (fst (handleSendMessage_start s gid now)))"
  by (simp add: handleSendMessage_start_def Let_def)

lemma send_resume_prefix:
  "prefix (messages s) (messages (handleSendMessage_resume s r gid now))"
  by (simp add: handleSendMessage_resume_def Let_def split: option.splits)

lemma confirmation_start_prefix:
  "prefix (messages s) (messages (fst (handleConfirmationResponse_start s c gid now)))"
  by (simp add: handleConfirmationResponse_start_def Let_def)

lemma confirmation_resume_prefix:
  "prefix (messages s) (messages (handleConfirmationResponse_resume s r gid now))"
  by (simp add: handleConfirmationResponse_resume_def Let_def split: option.splits)

lemma send_prefix:
  "prefix (messages s) (messages (handleSendMessage s gid now r gid' now'))"
proof (cases "handleSendMessage_start s gid now")
  case (Pair s' req)
  with send_start_prefix [of s gid now] have p: "prefix (messages s) (messages s')" by simp
  show ?thesis
  proof (cases req)
    case None
    with Pair p show ?thesis by (simp add: handleSendMessage_def)
  next
    case (Some q)
    with Pair have "handleSendMessage s gid now r gid' now' = handleSendMessage_resume s' r gid' now'"
      by (simp add: handleSendMessage_def)
    with p send_resume_prefix [of s' r gid' now'] show ?thesis
      by (metis prefix_order.order_trans)
  qed
qed

lemma confirmation_prefix:
  "prefix (messages s) (messages (handleConfirmationResponse s c gid now r gid' now'))"
proof (cases "handleConfirmationResponse_start s c gid now")
  case (Pair s' req)
  with confirmation_start_prefix [of s c gid now] have p: "prefix (messages s) (messages s')"
    by simp
  show ?thesis
  proof (cases req)
    case None
    with Pair p show ?thesis by (simp add: handleConfirmationResponse_def)
  next
    case (Some q)
    with Pair have "handleConfirmationResponse s c gid now r gid' now' =
        handleConfirmationResponse_resume s' r gid' now'"
      by (simp add: handleConfirmationResponse_def)
    with p confirmation_resume_prefix [of s' r gid' now'] show ?thesis
      by (metis prefix_order.order_trans)
  qed
qed

section \<open>The claims\<close>

subsection \<open>C1: the response handling of \<^verbatim>\<open>respondToConfirmation\<close>\<close>

text \<open>
  Claim C1 says that \<^verbatim>\<open>handleConfirmationResponse\<close> handles every reply and every transport
  failure exactly as \<^verbatim>\<open>handleSendMessage\<close> does. It does not. In the state reached by the
  example conversation (awaiting confirmation, conversation \<^verbatim>\<open>"abc"\<close>, nothing in flight),
  the user answers yes and the fetch rejects: \<^verbatim>\<open>handleConfirmationResponse\<close> appends the user
  message \<^verbatim>\<open>Yes\<close> and nothing else, where \<^verbatim>\<open>handleSendMessage\<close>, sending the same text in the
  same state, appends the fixed error message after the user message. And on a successful
  reply that carries the conversation identifier \<^verbatim>\<open>"xyz"\<close>, \<^verbatim>\<open>handleConfirmationResponse\<close>
  keeps \<^verbatim>\<open>"abc"\<close> where \<^verbatim>\<open>handleSendMessage\<close> stores \<^verbatim>\<open>"xyz"\<close>.
\<close>

theorem respondToConfirmation_diverges_from_submit:
  "handleConfirmationResponse example_awaiting Yes ''u5d1e8f'' 4000 Rejected ''a2c6g0h'' 5000 =
     example_awaiting\<lparr>messages := messages example_awaiting @
       [\<lparr>id_msg = ''u5d1e8f'', role = User, content = ''Yes'', timestamp = 4000,
         suggestedQueries = None\<rparr>]\<rparr>
   \<and> handleSendMessage (example_awaiting\<lparr>input := ''yes''\<rparr>)
       ''u5d1e8f'' 4000 Rejected ''a2c6g0h'' 5000 =
     example_awaiting\<lparr>messages := messages example_awaiting @
       [\<lparr>id_msg = ''u5d1e8f'', role = User, content = ''yes'', timestamp = 4000,
         suggestedQueries = None\<rparr>,
        \<lparr>id_msg = ''a2c6g0h'', role = Assistant, content = errorText, timestamp = 5000,
         suggestedQueries = None\<rparr>]\<rparr>
   \<and> conversationId (handleConfirmationResponse example_awaiting Yes ''u5d1e8f'' 4000
       (Response 200 \<lparr>response = ''Which term?'', conversation_id = Some ''xyz'',
                      confirmed = None, awaiting_confirmation = None\<rparr>) ''a2c6g0h'' 5000) =
     Some ''abc''
   \<and> conversationId (handleSendMessage (example_awaiting\<lparr>input := ''yes''\<rparr>) ''u5d1e8f'' 4000
       (Response 200 \<lparr>response = ''Which term?'', conversation_id = Some ''xyz'',
                      confirmed = None, awaiting_confirmation = None\<rparr>) ''a2c6g0h'' 5000) =
     Some ''xyz''"
  by (simp add: example_awaiting_value handleConfirmationResponse_def handleSendMessage_def
      eval_defs)

subsection \<open>C2: the mode after a successful reply to \<^verbatim>\<open>submit\<close>\<close>

text \<open>
  Claim C2. For every successful backend reply to \<^verbatim>\<open>submit\<close>, the resulting mode is determined
  by the reply's flags, with confirmed taking precedence: confirmed when \<^verbatim>\<open>confirmed\<close> is true,
  whatever \<^verbatim>\<open>awaiting_confirmation\<close> is; composing when neither flag is set. This holds
  whenever the component, after any sequence of events, has a send pending and its fetch
  settles with a successful reply; it holds for the handler run from start to end in every
  state in which the send button is rendered and enabled; and a reply with \<^verbatim>\<open>confirmed\<close>
  true yields mode confirmed in every state whatever, so regardless of the prior mode.
\<close>

theorem submit_reply_mode:
  assumes "fetch_data r = Some d"
  shows "(snd (run im evs) = Some SendPending \<longrightarrow>
            mode (fst (fire im (run im evs) (Settle r gid' now'))) =
              (if truthy (confirmed d) then Confirmed
               else if truthy (awaiting_confirmation d) then AwaitingConfirmation
               else Composing))
       \<and> (available s SendButton \<longrightarrow>
            mode (handleSendMessage s gid now r gid' now') =
              (if truthy (confirmed d) then Confirmed
               else if truthy (awaiting_confirmation d) then AwaitingConfirmation
               else Composing))
       \<and> (truthy (confirmed d) \<longrightarrow>
            mode (handleSendMessage_resume s r gid' now') = Confirmed)"
proof (intro conjI impI)
  assume pending: "snd (run im evs) = Some SendPending"
  obtain s0 p0 where sp: "run im evs = (s0, p0)" by (cases "run im evs")
  with pending have p0: "p0 = Some SendPending" by simp
  from consistent_run [of im evs] sp p0 have "\<not> isConfirmed s0"
    by (simp add: consistent_def)
  with sp p0 send_resume_mode [OF assms, of s0 gid' now'] 
  show "mode (fst (fire im (run im evs) (Settle r gid' now'))) =
              (if truthy (confirmed d) then Confirmed
               else if truthy (awaiting_confirmation d) then AwaitingConfirmation
               else Composing)"
    by simp
next
  assume "available s SendButton"
  then have "trim (input s) \<noteq> []" and "\<not> isLoading s" and "\<not> isConfirmed s"
    by (simp_all add: available_def)
  with send_mode [OF _ _ assms, of s gid now gid' now']
  show "mode (handleSendMessage s gid now r gid' now') =
              (if truthy (confirmed d) then Confirmed
               else if truthy (awaiting_confirmation d) then AwaitingConfirmation
               else Composing)"
    by simp
next
  assume "truthy (confirmed d)"
  with send_resume_mode [OF assms, of s gid' now']
  show "mode (handleSendMessage_resume s r gid' now') = Confirmed" by simp
qed

theorem submit_reply_mode_witness:
  "fetch_data (Response 200 \<lparr>response = ''There are 12 terms.'', conversation_id = Some ''abc'',
                      confirmed = None, awaiting_confirmation = None\<rparr>) =
       Some \<lparr>response = ''There are 12 terms.'', conversation_id = Some ''abc'',
                      confirmed = None, awaiting_confirmation = None\<rparr>
   \<and> snd (run example_im example_sending) = Some SendPending
   \<and> mode (fst (fire example_im (run example_im example_sending)
        (Settle (Response 200 \<lparr>response = ''There are 12 terms.'', conversation_id = Some ''abc'',
                      confirmed = None, awaiting_confirmation = None\<rparr>) ''a8l4m6n'' 7000))) = Composing
   \<and> available example_typed SendButton
   \<and> mode (handleSendMessage example_typed ''u7h3j5k'' 6000
        (Response 200 \<lparr>response = ''There are 12 terms.'', conversation_id = Some ''abc'',
                      confirmed = None, awaiting_confirmation = None\<rparr>) ''a8l4m6n'' 7000) = Composing
   \<and> fetch_data (Response 200 \<lparr>response = ''Done.'', conversation_id = Some ''abc'',
                      confirmed = Some True, awaiting_confirmation = Some True\<rparr>) =
       Some \<lparr>response = ''Done.'', conversation_id = Some ''abc'',
                      confirmed = Some True, awaiting_confirmation = Some True\<rparr>
   \<and> truthy (confirmed \<lparr>response = ''Done.'', conversation_id = Some ''abc'',
                      confirmed = Some True, awaiting_confirmation = Some True\<rparr>)
   \<and> mode (handleSendMessage_resume example_awaiting
        (Response 200 \<lparr>response = ''Done.'', conversation_id = Some ''abc'',
                      confirmed = Some True, awaiting_confirmation = Some True\<rparr>)
        ''a8l4m6n'' 7000) = Confirmed"
  using submit_reply_mode [of
      "Response 200 \<lparr>response = ''There are 12 terms.'', conversation_id = Some ''abc'',
                      confirmed = None, awaiting_confirmation = None\<rparr>"
      "\<lparr>response = ''There are 12 terms.'', conversation_id = Some ''abc'',
                      confirmed = None, awaiting_confirmation = None\<rparr>"
      example_im example_sending "''a8l4m6n''" 7000 example_typed "''u7h3j5k''" 6000]
    submit_reply_mode [of
      "Response 200 \<lparr>response = ''Done.'', conversation_id = Some ''abc'',
                      confirmed = Some True, awaiting_confirmation = Some True\<rparr>"
      "\<lparr>response = ''Done.'', conversation_id = Some ''abc'',
                      confirmed = Some True, awaiting_confirmation = Some True\<rparr>"
      example_im example_sending "''a8l4m6n''" 7000 example_awaiting "''u7h3j5k''" 6000]
  by (simp add: ok_def example_sending_value example_typed_value available_def
      Chat_initial_def trim_def isWhiteSpace_def)

subsection \<open>C3: a failed gateway call of \<^verbatim>\<open>submit\<close>\<close>

text \<open>
  Claim C3. For every state in which \<^verbatim>\<open>submit\<close> passes its guard (the trimmed text is not
  empty and nothing is in flight), if the fetch fails (it rejects, or its status is not
  2xx: \<open>fetch_data r = None\<close>), then the message list grows by the user message followed by
  exactly one assistant message with the fixed error text, the two mode flags and the
  conversation identifier are unchanged, and \<open>isLoading\<close> is false afterwards.
\<close>

theorem submit_failure:
  assumes "trim (input s) \<noteq> []" and "\<not> isLoading s" and "fetch_data r = None"
  shows "handleSendMessage s gid now r gid' now' =
           s\<lparr>messages := messages s @
                [\<lparr>id_msg = gid, role = User, content = trim (input s), timestamp = now,
                  suggestedQueries = None\<rparr>,
                 \<lparr>id_msg = gid', role = Assistant, content = errorText, timestamp = now',
                  suggestedQueries = None\<rparr>],
              input := [], isLoading := False\<rparr>
       \<and> isConfirmed (handleSendMessage s gid now r gid' now') = isConfirmed s
       \<and> isAwaitingConfirmation (handleSendMessage s gid now r gid' now') =
           isAwaitingConfirmation s
       \<and> mode (handleSendMessage s gid now r gid' now') = mode s
       \<and> conversationId (handleSendMessage s gid now r gid' now') = conversationId s
       \<and> \<not> isLoading (handleSendMessage s gid now r gid' now')"
  using assms by (simp add: handler_defs Let_def mode_def)

theorem submit_failure_witness:
  "trim (input ((Chat_initial example_im)\<lparr>input := ''How many?''\<rparr>)) \<noteq> []
   \<and> \<not> isLoading ((Chat_initial example_im)\<lparr>input := ''How many?''\<rparr>)
   \<and> fetch_data (Response 503 \<lparr>response = [], conversation_id = None,
                      confirmed = None, awaiting_confirmation = None\<rparr>) = None
   \<and> handleSendMessage ((Chat_initial example_im)\<lparr>input := ''How many?''\<rparr>) ''u7h3j5k'' 6000
        (Response 503 \<lparr>response = [], conversation_id = None,
                      confirmed = None, awaiting_confirmation = None\<rparr>) ''a8l4m6n'' 7000 =
      (Chat_initial example_im)\<lparr>messages := [example_im,
          \<lparr>id_msg = ''u7h3j5k'', role = User, content = ''How many?'', timestamp = 6000,
            suggestedQueries = None\<rparr>,
          \<lparr>id_msg = ''a8l4m6n'', role = Assistant, content = errorText, timestamp = 7000,
            suggestedQueries = None\<rparr>]\<rparr>"
  using submit_failure [of "(Chat_initial example_im)\<lparr>input := ''How many?''\<rparr>"
      "Response 503 \<lparr>response = [], conversation_id = None,
                      confirmed = None, awaiting_confirmation = None\<rparr>"
      "''u7h3j5k''" 6000 "''a8l4m6n''" 7000]
  by (simp add: trim_def isWhiteSpace_def Chat_initial_def ok_def)

subsection \<open>C4: \<^verbatim>\<open>respondToConfirmation\<close> outside the awaiting-confirmation mode\<close>

text \<open>
  Claim C4. In every state whose mode is not awaiting confirmation, the Yes and Change
  buttons, the only callers of \<^verbatim>\<open>handleConfirmationResponse\<close>, are not rendered, and a
  confirmation choice has no effect: no message is appended, no request is made (nothing
  becomes pending), and the whole state is unchanged. And while a request is in flight the
  handler itself returns at its guard, with the state unchanged and no request made.
\<close>

theorem respondToConfirmation_validity:
  "(isLoading s \<longrightarrow>
      handleConfirmationResponse_start s c gid now = (s, None)
      \<and> handleConfirmationResponse s c gid now r gid' now' = s)
   \<and> (mode s \<noteq> AwaitingConfirmation \<longrightarrow>
      \<not> rendered s YesButton \<and> \<not> rendered s ChangeButton
      \<and> fire im (s, p) (Click YesButton gid now) = (s, p)
      \<and> fire im (s, p) (Click ChangeButton gid now) = (s, p))"
  by (auto simp add: handleConfirmationResponse_def handleConfirmationResponse_start_def
      mode_def available_def split: if_splits)

theorem respondToConfirmation_validity_witness:
  "isLoading (fst (run example_im example_sending))
   \<and> mode (fst (run example_im example_sending)) \<noteq> AwaitingConfirmation
   \<and> handleConfirmationResponse_start (fst (run example_im example_sending)) No ''u7h3j5k'' 6000
       = (fst (run example_im example_sending), None)
   \<and> \<not> rendered (fst (run example_im example_sending)) ChangeButton
   \<and> fire example_im (run example_im example_sending) (Click ChangeButton ''u7h3j5k'' 6000)
       = run example_im example_sending
   \<and> fire example_im (run example_im example_sending) (Click YesButton ''u7h3j5k'' 6000)
       = run example_im example_sending"
  using respondToConfirmation_validity
      [of "fst (run example_im example_sending)" No "''u7h3j5k''" 6000
        Rejected "''a8l4m6n''" 7000 example_im "snd (run example_im example_sending)"]
  by (simp add: example_sending_value mode_def Chat_initial_def)

subsection \<open>C5: \<^verbatim>\<open>submit\<close> with nothing to send, or while a request is in flight\<close>

text \<open>
  Claim C5. For every state whose input text is empty or holds only white space, or in
  which a request is in flight, \<^verbatim>\<open>handleSendMessage\<close> returns at its guard: it appends no
  message, the gateway is not called (no request is made), and the whole state is
  unchanged.
\<close>

theorem submit_rejected:
  assumes "list_all isWhiteSpace (input s) \<or> isLoading s"
  shows "handleSendMessage_start s gid now = (s, None)
       \<and> handleSendMessage s gid now r gid' now' = s"
  using assms
  by (auto simp add: handleSendMessage_def handleSendMessage_start_def trim_Nil_iff)

theorem submit_rejected_witness:
  "(list_all isWhiteSpace (input ((Chat_initial example_im)\<lparr>input := ''   ''\<rparr>))
      \<or> isLoading ((Chat_initial example_im)\<lparr>input := ''   ''\<rparr>))
   \<and> handleSendMessage_start ((Chat_initial example_im)\<lparr>input := ''   ''\<rparr>) ''u7h3j5k'' 6000 =
       ((Chat_initial example_im)\<lparr>input := ''   ''\<rparr>, None)
   \<and> handleSendMessage ((Chat_initial example_im)\<lparr>input := ''   ''\<rparr>) ''u7h3j5k'' 6000
       Rejected ''a8l4m6n'' 7000 = (Chat_initial example_im)\<lparr>input := ''   ''\<rparr>"
  using submit_rejected [of "(Chat_initial example_im)\<lparr>input := ''   ''\<rparr>" "''u7h3j5k''" 6000
      Rejected "''a8l4m6n''" 7000]
  by (simp add: isWhiteSpace_def)

subsection \<open>C6: \<^verbatim>\<open>reset\<close>\<close>

text \<open>
  Claim C6. For every state, \<^verbatim>\<open>handleStartNewConversation\<close> yields a state whose message list
  is exactly one message, the greeting with the identifier that \<^verbatim>\<open>generateId()\<close> returned and
  the time that \<^verbatim>\<open>new Date()\<close> returned in this call, whose conversation identifier is null
  and whose mode is composing.
\<close>

theorem reset_state:
  "messages (handleStartNewConversation (INITIAL_MESSAGE gid0 now0) s gid now) =
     [INITIAL_MESSAGE gid now]
   \<and> conversationId (handleStartNewConversation (INITIAL_MESSAGE gid0 now0) s gid now) = None
   \<and> mode (handleStartNewConversation (INITIAL_MESSAGE gid0 now0) s gid now) = Composing"
  by (simp add: handleStartNewConversation_def INITIAL_MESSAGE_def mode_def)

subsection \<open>C7: one mode at a time\<close>

text \<open>
  Claim C7. In every state the component reaches from its initial state, by any sequence of
  events (typing, sending, answering a confirmation, starting over, and the settling of a
  pending fetch with any reply or failure), \<open>isConfirmed\<close> and \<open>isAwaitingConfirmation\<close> are
  never both true, and each of the three modes holds exactly for its own combination of the
  two flags.
\<close>

theorem mode_exclusive:
  "\<not> (isConfirmed (fst (run im evs)) \<and> isAwaitingConfirmation (fst (run im evs)))
   \<and> (mode (fst (run im evs)) = Composing) =
       (\<not> isConfirmed (fst (run im evs)) \<and> \<not> isAwaitingConfirmation (fst (run im evs)))
   \<and> (mode (fst (run im evs)) = AwaitingConfirmation) =
       (\<not> isConfirmed (fst (run im evs)) \<and> isAwaitingConfirmation (fst (run im evs)))
   \<and> (mode (fst (run im evs)) = Confirmed) =
       (isConfirmed (fst (run im evs)) \<and> \<not> isAwaitingConfirmation (fst (run im evs)))"
  using consistent_run [of im evs] by (auto simp add: consistent_def mode_def)

subsection \<open>C8: confirmed is terminal until \<^verbatim>\<open>reset\<close>\<close>

text \<open>
  Claim C8. For every state whose mode is confirmed (reachable or not), neither handler,
  whole or in either of its halves, with any reply or failure, changes the mode; and
  \<^verbatim>\<open>handleStartNewConversation\<close> leaves it, for mode composing with a null conversation
  identifier and the single greeting message.
\<close>

theorem confirmed_terminal:
  assumes "mode s = Confirmed"
  shows "mode (handleSendMessage s gid now r gid' now') = Confirmed
       \<and> mode (fst (handleSendMessage_start s gid now)) = Confirmed
       \<and> mode (handleSendMessage_resume s r gid' now') = Confirmed
       \<and> mode (handleConfirmationResponse s c gid now r gid' now') = Confirmed
       \<and> mode (fst (handleConfirmationResponse_start s c gid now)) = Confirmed
       \<and> mode (handleConfirmationResponse_resume s r gid' now') = Confirmed
       \<and> mode (handleStartNewConversation (INITIAL_MESSAGE gid0 now0) s gid1 now1) = Composing
       \<and> conversationId (handleStartNewConversation (INITIAL_MESSAGE gid0 now0) s gid1 now1) = None
       \<and> messages (handleStartNewConversation (INITIAL_MESSAGE gid0 now0) s gid1 now1) =
           [INITIAL_MESSAGE gid1 now1]"
  using assms
  by (auto simp add: handler_defs Let_def mode_def handleStartNewConversation_def
      INITIAL_MESSAGE_def split: option.splits if_splits)

theorem confirmed_terminal_witness:
  "mode example_confirmed = Confirmed
   \<and> mode (handleSendMessage example_confirmed ''u7h3j5k'' 6000 Rejected ''a8l4m6n'' 7000) = Confirmed
   \<and> mode (handleConfirmationResponse example_confirmed No ''u7h3j5k'' 6000 Rejected
        ''a8l4m6n'' 7000) = Confirmed
   \<and> mode (handleStartNewConversation example_im example_confirmed ''g1p5r9s'' 8000) = Composing"
  using confirmed_terminal [of example_confirmed "''u7h3j5k''" 6000 Rejected "''a8l4m6n''" 7000
      No "''h7k2m9q''" 1000 "''g1p5r9s''" 8000]
  by (simp add: example_confirmed_value mode_def example_im_def)

subsection \<open>C9: the message list only grows\<close>

text \<open>
  Claim C9. Under every application of \<^verbatim>\<open>handleSendMessage\<close> and of
  \<^verbatim>\<open>handleConfirmationResponse\<close>, with any reply or failure, the message list before is a
  prefix of the message list after: the messages that were there are still there, in
  place and unmodified.
\<close>

theorem messages_append_only:
  "prefix (messages s) (messages (handleSendMessage s gid now r gid' now'))
   \<and> prefix (messages s) (messages (handleConfirmationResponse s c gid now r gid' now'))
   \<and> take (length (messages s)) (messages (handleSendMessage s gid now r gid' now')) =
       messages s
   \<and> take (length (messages s)) (messages (handleConfirmationResponse s c gid now r gid' now')) =
       messages s"
  using send_prefix [of s gid now r gid' now'] confirmation_prefix [of s c gid now r gid' now']
  by (auto simp add: prefix_def)

subsection \<open>C10: what a confirmation choice shows and what it sends\<close>

text \<open>
  Claim C10. With no request in flight, the alternative choice appends a user message with
  content \<^verbatim>\<open>No, let me change something\<close> and sends the different text
  \<^verbatim>\<open>I want to change something\<close>; the affirmative choice appends \<^verbatim>\<open>Yes\<close> and sends \<^verbatim>\<open>yes\<close>.
\<close>

theorem confirmation_texts:
  assumes "\<not> isLoading s"
  shows "handleConfirmationResponse_start s No gid now =
           (s\<lparr>messages := messages s @
                [\<lparr>id_msg = gid, role = User, content = ''No, let me change something'',
                  timestamp = now, suggestedQueries = None\<rparr>],
              isLoading := True\<rparr>,
            Some \<lparr>message = ''I want to change something'', conversation_id = conversationId s\<rparr>)
       \<and> handleConfirmationResponse_start s Yes gid now =
           (s\<lparr>messages := messages s @
                [\<lparr>id_msg = gid, role = User, content = ''Yes'',
                  timestamp = now, suggestedQueries = None\<rparr>],
              isLoading := True\<rparr>,
            Some \<lparr>message = ''yes'', conversation_id = conversationId s\<rparr>)
       \<and> ''No, let me change something'' \<noteq> ''I want to change something''
       \<and> ''Yes'' \<noteq> ''yes''"
  using assms by (simp add: handleConfirmationResponse_start_def)

theorem confirmation_texts_witness:
  "\<not> isLoading example_awaiting
   \<and> handleConfirmationResponse_start example_awaiting No ''u7h3j5k'' 6000 =
       (example_awaiting\<lparr>messages := messages example_awaiting @
           [\<lparr>id_msg = ''u7h3j5k'', role = User, content = ''No, let me change something'',
             timestamp = 6000, suggestedQueries = None\<rparr>],
          isLoading := True\<rparr>,
        Some \<lparr>message = ''I want to change something'', conversation_id = Some ''abc''\<rparr>)"
  using confirmation_texts [of example_awaiting "''u7h3j5k''" 6000]
  by (simp add: example_awaiting_value)

end
